theory Spec2Isabelle
  imports Complex_Main
begin

section \<open>The zoomable image viewer (ImageItem.android.tsx)\<close>

text \<open>
  The gesture handlers of \<^verbatim>\<open>ImageItem\<close> are embedded as functions on an explicit
  state: the five shared values of the component, the React state \<^verbatim>\<open>isScaled\<close>, the
  previous result of the animated reaction, and the log of calls made to the host
  (\<^verbatim>\<open>onTap\<close>, \<^verbatim>\<open>onZoom\<close>).

  JavaScript numbers are modelled as real numbers: rounding error, infinities and NaN
  of IEEE doubles are outside the model. Where a statement rests on the value of a
  quotient, its hypotheses keep the divisor away from zero (a screen of positive size,
  an image aspect other than 0, a committed scale of at least 1).
\<close>

subsection \<open>Data\<close>

record Dimensions =
  width :: real
  height :: real

text \<open>A point \<^verbatim>\<open>{x, y}\<close>; the fields are named \<open>px\<close> and \<open>py\<close>.\<close>

record Position =
  px :: real
  py :: real

text \<open>
  The transform type of \<^verbatim>\<open>../../transforms\<close>, in the representation the
  specification gives it: translation and uniform scale.
\<close>

record TransformMatrix =
  translateX :: real
  translateY :: real
  scale :: real

datatype Notification = OnTap | OnZoom bool

text \<open>
  What the component reads from outside: the two results of
  \<^verbatim>\<open>Dimensions.get\<close>, the two results of \<^verbatim>\<open>useImageDimensions\<close> (each
  \<^verbatim>\<open>undefined\<close> while the image loads), and the two snapping functions of
  \<^verbatim>\<open>applyRounding\<close>, whose grid the specification leaves open.
\<close>

record Env =
  windowDim :: Dimensions
  screenDim :: Dimensions
  imageAspect :: "real option"
  imageDimensions :: "Dimensions option"
  snapTranslation :: "real \<Rightarrow> real"
  snapScale :: "real \<Rightarrow> real"

record State =
  committedTransform :: TransformMatrix
  panTranslation :: Position
  pinchOrigin :: Position
  pinchScale :: real
  pinchTranslation :: Position
  isScaled :: bool
  prevIsScaled :: "bool option"
  notifications :: "Notification list"

datatype Event =
    PinchStart real real
  | PinchChange real
  | PinchEnd
  | PanChange real real
  | PanEnd
  | SingleTapEnd
  | DoubleTapEnd real real
  | AnimatedReaction

subsection \<open>Module constants\<close>

definition statusBarHeight :: "Env \<Rightarrow> real" where
  "statusBarHeight env = height (windowDim env) - height (screenDim env)"

definition SCREEN :: "Env \<Rightarrow> Dimensions" where
  "SCREEN env =
     \<lparr>width = width (windowDim env),
      height = height (windowDim env) + statusBarHeight env\<rparr>"

definition MIN_DOUBLE_TAP_SCALE :: real where
  "MIN_DOUBLE_TAP_SCALE = 2"

definition MAX_ORIGINAL_IMAGE_ZOOM :: real where
  "MAX_ORIGINAL_IMAGE_ZOOM = 2"

subsection \<open>The transforms module\<close>

text \<open>
  Modelled from the spec: \<^verbatim>\<open>createTransform\<close> of \<^verbatim>\<open>../../transforms\<close>, which is
  not among the sources. The neutral transform is translation (0,0) and scale 1.
\<close>

definition createTransform :: TransformMatrix where
  "createTransform = \<lparr>translateX = 0, translateY = 0, scale = 1\<rparr>"

definition initialTransform :: TransformMatrix where
  "initialTransform = createTransform"

text \<open>
  Modelled from the spec: \<^verbatim>\<open>readTransform\<close> of \<^verbatim>\<open>../../transforms\<close>. It
  extracts the components in the order (translateX, translateY, scale).
\<close>

definition readTransform :: "TransformMatrix \<Rightarrow> real \<times> real \<times> real" where
  "readTransform t = (translateX t, translateY t, scale t)"

text \<open>
  Modelled from the spec: \<^verbatim>\<open>prependPan\<close> of \<^verbatim>\<open>../../transforms\<close>. A prepended
  operation is multiplied onto the transform from the right ("operations are applied in
  the reverse order"), so the translation delta passes through the scale already held.
\<close>

definition prependPan :: "TransformMatrix \<Rightarrow> Position \<Rightarrow> TransformMatrix" where
  "prependPan t translation =
     \<lparr>translateX = translateX t + scale t * px translation,
      translateY = translateY t + scale t * py translation,
      scale = scale t\<rparr>"

text \<open>
  Modelled from the spec: \<^verbatim>\<open>prependPinch\<close> of \<^verbatim>\<open>../../transforms\<close>. The pinch
  maps a point \<open>p\<close> to \<open>s * (p - origin) + origin + translation\<close>: translate the
  origin to the centre, scale, translate back, add the pinch translation.
\<close>

definition prependPinch ::
  "TransformMatrix \<Rightarrow> real \<Rightarrow> Position \<Rightarrow> Position \<Rightarrow> TransformMatrix" where
  "prependPinch t s origin translation =
     \<lparr>translateX =
        translateX t + scale t * (px translation + px origin - s * px origin),
      translateY =
        translateY t + scale t * (py translation + py origin - s * py origin),
      scale = scale t * s\<rparr>"

text \<open>
  Modelled from the spec: \<^verbatim>\<open>prependTransform\<close> of \<^verbatim>\<open>../../transforms\<close>, the
  product of two transforms.
\<close>

definition prependTransform :: "TransformMatrix \<Rightarrow> TransformMatrix \<Rightarrow> TransformMatrix" where
  "prependTransform ta tb =
     \<lparr>translateX = translateX ta + scale ta * translateX tb,
      translateY = translateY ta + scale ta * translateY tb,
      scale = scale ta * scale tb\<rparr>"

text \<open>
  Modelled from the spec: \<^verbatim>\<open>applyRounding\<close> of \<^verbatim>\<open>../../transforms\<close>. It snaps
  the translation and the scale components; the specification does not say to which
  grid, so the two snapping functions are parameters.
\<close>

definition applyRounding ::
  "(real \<Rightarrow> real) \<Rightarrow> (real \<Rightarrow> real) \<Rightarrow> TransformMatrix \<Rightarrow> TransformMatrix" where
  "applyRounding snapT snapS t =
     \<lparr>translateX = snapT (translateX t),
      translateY = snapT (translateY t),
      scale = snapS (scale t)\<rparr>"

text \<open>
  What the theorems below ask of a scale snapping: it is monotone, it leaves the
  scale 1 in place, and snapping twice is snapping once.
\<close>

definition goodSnap :: "(real \<Rightarrow> real) \<Rightarrow> bool" where
  "goodSnap f \<longleftrightarrow> mono f \<and> f 1 = 1 \<and> (\<forall>v. f (f v) = f v)"

text \<open>
  Rounding to the nearest multiple of \<open>1 / n\<close>, an instance of such a snapping, used
  to run the handlers on concrete inputs.
\<close>

definition snapToGrid :: "real \<Rightarrow> real \<Rightarrow> real" where
  "snapToGrid n v = of_int (round (v * n)) / n"

subsection \<open>Pure helpers of the component\<close>

definition getScaledDimensions :: "Dimensions \<Rightarrow> real \<Rightarrow> real \<Rightarrow> Dimensions" where
  "getScaledDimensions scr imgAspect s =
     (let screenAspect = width scr / height scr;
          isLandscape = imgAspect > screenAspect
      in if isLandscape
         then \<lparr>width = s * width scr, height = (s * width scr) / imgAspect\<rparr>
         else \<lparr>width = s * height scr * imgAspect, height = s * height scr\<rparr>)"

definition clampTranslation :: "real \<Rightarrow> real \<Rightarrow> real \<Rightarrow> real" where
  "clampTranslation v scaledSize screenSize =
     (let panDistance = max 0 ((scaledSize - screenSize) / 2);
          clampedValue = min (max (- panDistance) v) panDistance
      in clampedValue)"

text \<open>
  The spring started by \<^verbatim>\<open>withClampedSpring\<close> is modelled by the value it settles
  at; \<^verbatim>\<open>overshootClamping\<close> keeps it from passing that value.
\<close>

definition withClampedSpring :: "'a \<Rightarrow> 'a" where
  "withClampedSpring v = v"

text \<open>
  JavaScript's \<^verbatim>\<open>!imageAspect\<close>: true for \<^verbatim>\<open>undefined\<close> and for the number 0.
\<close>

definition notAspect :: "real option \<Rightarrow> bool" where
  "notAspect a = (case a of None \<Rightarrow> True | Some r \<Rightarrow> r = 0)"

definition getExtraTranslationToStayInBounds :: "Env \<Rightarrow> TransformMatrix \<Rightarrow> real \<times> real" where
  "getExtraTranslationToStayInBounds env candidateTransform =
     (if notAspect (imageAspect env) then (0, 0)
      else
        let (nextTranslateX, nextTranslateY, nextScale) = readTransform candidateTransform;
            scaledDimensions = getScaledDimensions (SCREEN env) (the (imageAspect env)) nextScale;
            clampedTranslateX =
              clampTranslation nextTranslateX (width scaledDimensions) (width (SCREEN env));
            clampedTranslateY =
              clampTranslation nextTranslateY (height scaledDimensions) (height (SCREEN env));
            dx = clampedTranslateX - nextTranslateX;
            dy = clampedTranslateY - nextTranslateY
        in (dx, dy))"

subsection \<open>The animated reaction\<close>

text \<open>The first function of \<^verbatim>\<open>useAnimatedReaction\<close>: the derived signal.\<close>

definition nextIsScaled :: "State \<Rightarrow> bool" where
  "nextIsScaled s =
     (if pinchScale s \<noteq> 1 then True
      else
        let (_, _, committedScale) = readTransform (committedTransform s)
        in if committedScale \<noteq> 1 then True else False)"

definition handleZoom :: "bool \<Rightarrow> State \<Rightarrow> State" where
  "handleZoom b s = s\<lparr>isScaled := b, notifications := notifications s @ [OnZoom b]\<rparr>"

text \<open>
  One evaluation of the reaction. The previous result is \<^verbatim>\<open>null\<close> (\<open>None\<close>) at the
  first evaluation, and the result of the evaluation before otherwise.
\<close>

definition animatedReaction :: "State \<Rightarrow> State" where
  "animatedReaction s =
     (let n = nextIsScaled s;
          s1 = (if Some n \<noteq> prevIsScaled s then handleZoom n s else s)
      in s1\<lparr>prevIsScaled := Some n\<rparr>)"

subsection \<open>The gesture handlers\<close>

definition pinch_onStart :: "Env \<Rightarrow> real \<Rightarrow> real \<Rightarrow> State \<Rightarrow> State" where
  "pinch_onStart env focalX focalY s =
     s\<lparr>pinchOrigin :=
         \<lparr>px = focalX - width (SCREEN env) / 2,
          py = focalY - height (SCREEN env) / 2\<rparr>\<rparr>"

definition maxCommittedScale :: "Dimensions \<Rightarrow> Dimensions \<Rightarrow> real" where
  "maxCommittedScale scr dims = (width dims / width scr) * MAX_ORIGINAL_IMAGE_ZOOM"

definition minPinchScale :: "real \<Rightarrow> real" where
  "minPinchScale committedScale = 1 / committedScale"

definition maxPinchScale :: "Dimensions \<Rightarrow> Dimensions \<Rightarrow> real \<Rightarrow> real" where
  "maxPinchScale scr dims committedScale = maxCommittedScale scr dims / committedScale"

definition pinch_onChange :: "Env \<Rightarrow> real \<Rightarrow> State \<Rightarrow> State" where
  "pinch_onChange env e_scale s =
     (case imageDimensions env of
        None \<Rightarrow> s
      | Some dims \<Rightarrow>
          let (_, _, committedScale) = readTransform (committedTransform s);
              nextPinchScale =
                min (max (minPinchScale committedScale) e_scale)
                    (maxPinchScale (SCREEN env) dims committedScale);
              s1 = s\<lparr>pinchScale := nextPinchScale\<rparr>;
              t0 = createTransform;
              t1 = prependPan t0 (panTranslation s1);
              t2 = prependPinch t1 nextPinchScale (pinchOrigin s1) (pinchTranslation s1);
              t3 = prependTransform t2 (committedTransform s1);
              (dx, dy) = getExtraTranslationToStayInBounds env t3
          in if dx \<noteq> 0 \<or> dy \<noteq> 0
             then s1\<lparr>pinchTranslation :=
                      \<lparr>px = px (pinchTranslation s1) + dx,
                       py = py (pinchTranslation s1) + dy\<rparr>\<rparr>
             else s1)"

definition pinch_onEnd :: "Env \<Rightarrow> State \<Rightarrow> State" where
  "pinch_onEnd env s =
     (let t0 = createTransform;
          t1 = prependPinch t0 (pinchScale s) (pinchOrigin s) (pinchTranslation s);
          t2 = prependTransform t1 (committedTransform s);
          t3 = applyRounding (snapTranslation env) (snapScale env) t2
      in s\<lparr>committedTransform := t3,
            pinchScale := 1,
            pinchOrigin := \<lparr>px = 0, py = 0\<rparr>,
            pinchTranslation := \<lparr>px = 0, py = 0\<rparr>\<rparr>)"

definition pan_onChange :: "Env \<Rightarrow> real \<Rightarrow> real \<Rightarrow> State \<Rightarrow> State" where
  "pan_onChange env translationX translationY s =
     (case imageDimensions env of
        None \<Rightarrow> s
      | Some dims \<Rightarrow>
          let nextPanTranslation = \<lparr>px = translationX, py = translationY\<rparr>;
              t0 = createTransform;
              t1 = prependPan t0 nextPanTranslation;
              t2 = prependPinch t1 (pinchScale s) (pinchOrigin s) (pinchTranslation s);
              t3 = prependTransform t2 (committedTransform s);
              (dx, dy) = getExtraTranslationToStayInBounds env t3
          in s\<lparr>panTranslation :=
                 \<lparr>px = px nextPanTranslation + dx, py = py nextPanTranslation + dy\<rparr>\<rparr>)"

definition pan_onEnd :: "Env \<Rightarrow> State \<Rightarrow> State" where
  "pan_onEnd env s =
     (let t0 = createTransform;
          t1 = prependPan t0 (panTranslation s);
          t2 = prependTransform t1 (committedTransform s);
          t3 = applyRounding (snapTranslation env) (snapScale env) t2
      in s\<lparr>committedTransform := t3, panTranslation := \<lparr>px = 0, py = 0\<rparr>\<rparr>)"

definition singleTap_onEnd :: "State \<Rightarrow> State" where
  "singleTap_onEnd s =
     (let (_, _, committedScale) = readTransform (committedTransform s);
          s1 = (if committedScale \<noteq> 1
                then s\<lparr>committedTransform := withClampedSpring createTransform\<rparr>
                else s)
      in s1\<lparr>notifications := notifications s1 @ [OnTap]\<rparr>)"

definition candidateScale :: "Dimensions \<Rightarrow> real \<Rightarrow> real" where
  "candidateScale scr imgAspect =
     (let screenAspect = width scr / height scr
      in max (max (imgAspect / screenAspect) (screenAspect / imgAspect)) MIN_DOUBLE_TAP_SCALE)"

definition doubleTap_onEnd :: "Env \<Rightarrow> real \<Rightarrow> real \<Rightarrow> State \<Rightarrow> State" where
  "doubleTap_onEnd env absoluteX absoluteY s =
     (if imageDimensions env = None \<or> notAspect (imageAspect env) then s
      else
        let (_, _, committedScale) = readTransform (committedTransform s)
        in if committedScale \<noteq> 1
           then s\<lparr>committedTransform := withClampedSpring createTransform\<rparr>
           else
             let maxScale =
                   (width (the (imageDimensions env)) / width (SCREEN env))
                     * MAX_ORIGINAL_IMAGE_ZOOM;
                 sc = min (candidateScale (SCREEN env) (the (imageAspect env))) maxScale;
                 origin =
                   \<lparr>px = absoluteX - width (SCREEN env) / 2,
                    py = absoluteY - height (SCREEN env) / 2\<rparr>;
                 candidateTransform =
                   prependPinch createTransform sc origin \<lparr>px = 0, py = 0\<rparr>;
                 (dx, dy) = getExtraTranslationToStayInBounds env candidateTransform;
                 finalTransform = prependPinch createTransform sc origin \<lparr>px = dx, py = dy\<rparr>
             in s\<lparr>committedTransform := withClampedSpring finalTransform\<rparr>)"

subsection \<open>Running the component\<close>

definition initialState :: State where
  "initialState =
     \<lparr>committedTransform = initialTransform,
      panTranslation = \<lparr>px = 0, py = 0\<rparr>,
      pinchOrigin = \<lparr>px = 0, py = 0\<rparr>,
      pinchScale = 1,
      pinchTranslation = \<lparr>px = 0, py = 0\<rparr>,
      isScaled = False,
      prevIsScaled = None,
      notifications = []\<rparr>"

fun dispatch :: "Env \<Rightarrow> Event \<Rightarrow> State \<Rightarrow> State" where
  "dispatch env (PinchStart focalX focalY) s = pinch_onStart env focalX focalY s"
| "dispatch env (PinchChange e_scale) s = pinch_onChange env e_scale s"
| "dispatch env PinchEnd s = pinch_onEnd env s"
| "dispatch env (PanChange translationX translationY) s =
     pan_onChange env translationX translationY s"
| "dispatch env PanEnd s = pan_onEnd env s"
| "dispatch env SingleTapEnd s = singleTap_onEnd s"
| "dispatch env (DoubleTapEnd absoluteX absoluteY) s =
     doubleTap_onEnd env absoluteX absoluteY s"
| "dispatch env AnimatedReaction s = animatedReaction s"

fun run :: "Env \<Rightarrow> Event list \<Rightarrow> State \<Rightarrow> State" where
  "run env [] s = s"
| "run env (ev # evs) s = run env evs (dispatch env ev s)"

fun isPinchEvent :: "Event \<Rightarrow> bool" where
  "isPinchEvent (PinchStart _ _) = True"
| "isPinchEvent (PinchChange _) = True"
| "isPinchEvent PinchEnd = True"
| "isPinchEvent _ = False"

text \<open>The values passed to \<^verbatim>\<open>onZoom\<close>, in the order of the calls.\<close>

fun zoomValues :: "Notification list \<Rightarrow> bool list" where
  "zoomValues [] = []"
| "zoomValues (OnZoom b # ns) = b # zoomValues ns"
| "zoomValues (OnTap # ns) = zoomValues ns"

subsection \<open>Concrete environments\<close>

text \<open>A 400 by 800 screen showing a 1000 by 500 image.\<close>

definition largeImageEnv :: Env where
  "largeImageEnv =
     \<lparr>windowDim = \<lparr>width = 400, height = 800\<rparr>,
      screenDim = \<lparr>width = 400, height = 800\<rparr>,
      imageAspect = Some 2,
      imageDimensions = Some \<lparr>width = 1000, height = 500\<rparr>,
      snapTranslation = snapToGrid 1,
      snapScale = snapToGrid 200\<rparr>"

text \<open>The same screen showing a 100 by 50 image: twice its width is less than the screen's.\<close>

definition smallImageEnv :: Env where
  "smallImageEnv =
     \<lparr>windowDim = \<lparr>width = 400, height = 800\<rparr>,
      screenDim = \<lparr>width = 400, height = 800\<rparr>,
      imageAspect = Some 2,
      imageDimensions = Some \<lparr>width = 100, height = 50\<rparr>,
      snapTranslation = snapToGrid 1,
      snapScale = snapToGrid 200\<rparr>"


text \<open>A square screen (screen aspect 1) showing a 2000 by 1000 image (image aspect 2).\<close>

definition squareScreenEnv :: Env where
  "squareScreenEnv =
     \<lparr>windowDim = \<lparr>width = 1000, height = 1000\<rparr>,
      screenDim = \<lparr>width = 1000, height = 1000\<rparr>,
      imageAspect = Some 2,
      imageDimensions = Some \<lparr>width = 2000, height = 1000\<rparr>,
      snapTranslation = snapToGrid 1,
      snapScale = snapToGrid 200\<rparr>"

text \<open>A 300 by 600 screen showing a 1001 by 1001 image.\<close>

definition oddImageEnv :: Env where
  "oddImageEnv =
     \<lparr>windowDim = \<lparr>width = 300, height = 600\<rparr>,
      screenDim = \<lparr>width = 300, height = 600\<rparr>,
      imageAspect = Some 1,
      imageDimensions = Some \<lparr>width = 1001, height = 1001\<rparr>,
      snapTranslation = snapToGrid 1,
      snapScale = snapToGrid 200\<rparr>"

text \<open>The same screen while the image is loading: neither result is known.\<close>

definition loadingEnv :: Env where
  "loadingEnv =
     \<lparr>windowDim = \<lparr>width = 400, height = 800\<rparr>,
      screenDim = \<lparr>width = 400, height = 800\<rparr>,
      imageAspect = None,
      imageDimensions = None,
      snapTranslation = snapToGrid 1,
      snapScale = snapToGrid 200\<rparr>"

text \<open>A state at rest whose committed transform is zoomed to twice the size.\<close>

definition zoomedState :: State where
  "zoomedState =
     initialState\<lparr>committedTransform := \<lparr>translateX = 0, translateY = 0, scale = 2\<rparr>\<rparr>"

subsection \<open>Invariants\<close>

text \<open>
  What every sequence of pinch events keeps: the committed scale lies between 1 and the
  snapped maximum and is a fixed point of the snapping, and the pinch in progress, if
  any, brings the total scale into the interval from 1 to the maximum.
\<close>

definition pinchInv :: "Env \<Rightarrow> Dimensions \<Rightarrow> State \<Rightarrow> bool" where
  "pinchInv env dims s \<longleftrightarrow>
     1 \<le> scale (committedTransform s) \<and>
     scale (committedTransform s) \<le> snapScale env (maxCommittedScale (SCREEN env) dims) \<and>
     snapScale env (scale (committedTransform s)) = scale (committedTransform s) \<and>
     (pinchScale s = 1 \<or>
      1 \<le> pinchScale s * scale (committedTransform s) \<and>
      pinchScale s * scale (committedTransform s) \<le> maxCommittedScale (SCREEN env) dims)"

text \<open>
  What every sequence of events keeps: the values passed to \<^verbatim>\<open>onZoom\<close> alternate, and
  the last of them is the previous result the reaction holds.
\<close>

definition zoomInv :: "State \<Rightarrow> bool" where
  "zoomInv s \<longleftrightarrow>
     distinct_adj (zoomValues (notifications s)) \<and>
     (zoomValues (notifications s) = [] \<or>
      prevIsScaled s = Some (last (zoomValues (notifications s))))"

section \<open>Helper lemmas\<close>

subsection \<open>Clamping and scaled dimensions\<close>

lemma clampTranslation_alt:
  "clampTranslation v a b = min (max (- max 0 ((a - b) / 2)) v) (max 0 ((a - b) / 2))"
  by (simp add: clampTranslation_def Let_def)

lemma clamp_inside: "\<bar>v\<bar> \<le> max 0 d \<Longrightarrow> min (max (- max 0 d) v) (max 0 d) = (v::real)"
  by (simp add: abs_le_iff)

lemma clamp_above: "max 0 d < v \<Longrightarrow> min (max (- max 0 d) v) (max 0 d) = max 0 (d::real)"
  by (simp add: min_def max_def split: if_splits)

lemma clamp_below: "v < - max 0 d \<Longrightarrow> min (max (- max 0 d) v) (max 0 d) = - max 0 (d::real)"
  by (simp add: min_def max_def split: if_splits)

lemma clampTranslation_bounded:
  "\<bar>clampTranslation v a b\<bar> \<le> max 0 ((a - b) / 2)"
  unfolding clampTranslation_alt by (simp add: abs_le_iff)

lemma getScaledDimensions_landscape:
  "width scr / height scr < a \<Longrightarrow>
   getScaledDimensions scr a s = \<lparr>width = s * width scr, height = (s * width scr) / a\<rparr>"
  by (simp add: getScaledDimensions_def Let_def)

lemma getScaledDimensions_portrait:
  "\<not> width scr / height scr < a \<Longrightarrow>
   getScaledDimensions scr a s = \<lparr>width = s * height scr * a, height = s * height scr\<rparr>"
  by (simp add: getScaledDimensions_def Let_def)

lemma getScaledDimensions_ratio:
  "a \<noteq> 0 \<Longrightarrow> width (getScaledDimensions scr a s) = a * height (getScaledDimensions scr a s)"
  by (cases "width scr / height scr < a")
     (simp_all add: getScaledDimensions_landscape getScaledDimensions_portrait)

lemma getScaledDimensions_contain:
  assumes "0 < a" "0 < width scr" "0 < height scr" "0 \<le> s"
  shows "width (getScaledDimensions scr a s) \<le> s * width scr"
    and "height (getScaledDimensions scr a s) \<le> s * height scr"
proof -
  show "width (getScaledDimensions scr a s) \<le> s * width scr"
  proof (cases "width scr / height scr < a")
    case True
    then show ?thesis by (simp add: getScaledDimensions_landscape)
  next
    case False
    then have "a \<le> width scr / height scr" by simp
    then have "a * height scr \<le> width scr" using assms(3) by (simp add: pos_le_divide_eq)
    then have "s * (height scr * a) \<le> s * width scr"
      using assms(4) by (simp add: mult_left_mono mult.commute)
    then show ?thesis using False by (simp add: getScaledDimensions_portrait mult.assoc)
  qed
  show "height (getScaledDimensions scr a s) \<le> s * height scr"
  proof (cases "width scr / height scr < a")
    case True
    then have "width scr < a * height scr" using assms(3) by (simp add: pos_divide_less_eq)
    then have "width scr / a \<le> height scr"
      using assms(1) by (simp add: pos_divide_le_eq mult.commute)
    then have "s * (width scr / a) \<le> s * height scr" using assms(4) by (rule mult_left_mono)
    then show ?thesis using True by (simp add: getScaledDimensions_landscape)
  next
    case False
    then show ?thesis by (simp add: getScaledDimensions_portrait)
  qed
qed

lemma getExtraTranslation_known:
  assumes "imageAspect env = Some a" "a \<noteq> 0"
  shows "getExtraTranslationToStayInBounds env t =
     (clampTranslation (translateX t)
        (width (getScaledDimensions (SCREEN env) a (scale t))) (width (SCREEN env))
        - translateX t,
      clampTranslation (translateY t)
        (height (getScaledDimensions (SCREEN env) a (scale t))) (height (SCREEN env))
        - translateY t)"
  using assms
  by (simp add: getExtraTranslationToStayInBounds_def notAspect_def readTransform_def Let_def)

subsection \<open>Snapping\<close>

lemma goodSnap_mono: "goodSnap f \<Longrightarrow> a \<le> b \<Longrightarrow> f a \<le> f b"
  by (simp add: goodSnap_def monoD)

lemma goodSnap_one: "goodSnap f \<Longrightarrow> f 1 = 1"
  by (simp add: goodSnap_def)

lemma goodSnap_idem: "goodSnap f \<Longrightarrow> f (f v) = f v"
  by (simp add: goodSnap_def)

lemma snapToGrid_mono: "0 < n \<Longrightarrow> mono (snapToGrid n)"
  by (rule monoI) (simp add: snapToGrid_def divide_right_mono round_mono)

lemma snapToGrid_idem: "n \<noteq> 0 \<Longrightarrow> snapToGrid n (snapToGrid n v) = snapToGrid n v"
  by (simp add: snapToGrid_def)

lemma goodSnap_snapToGrid_200: "goodSnap (snapToGrid 200)"
  unfolding goodSnap_def
proof (intro conjI allI)
  show "mono (snapToGrid 200)" by (rule snapToGrid_mono) simp
  show "snapToGrid 200 1 = 1" by (simp add: snapToGrid_def)
  show "snapToGrid 200 (snapToGrid 200 v) = snapToGrid 200 v" for v
    by (rule snapToGrid_idem) simp
qed

subsection \<open>The scale through a pinch\<close>

lemma clamped_scale_bounds:
  fixes c M e :: real
  assumes "0 < c" and "1 \<le> M"
  shows "1 \<le> min (max (1 / c) e) (M / c) * c" and "min (max (1 / c) e) (M / c) * c \<le> M"
proof -
  define p where "p = min (max (1 / c) e) (M / c)"
  have lo: "1 / c \<le> M / c" using assms by (simp add: divide_right_mono)
  have "1 / c \<le> p"
    unfolding p_def by (intro min.boundedI max.cobounded1 lo)
  then have "1 \<le> p * c" using assms(1) by (simp only: pos_divide_le_eq)
  then show "1 \<le> min (max (1 / c) e) (M / c) * c" by (simp only: p_def)
  have "p \<le> M / c" unfolding p_def by (rule min.cobounded2)
  then have "p * c \<le> M" using assms(1) by (simp only: pos_le_divide_eq)
  then show "min (max (1 / c) e) (M / c) * c \<le> M" by (simp only: p_def)
qed

lemma pinch_onStart_committed:
  "committedTransform (pinch_onStart env fx fy s) = committedTransform s"
  by (simp add: pinch_onStart_def)

lemma pinch_onChange_committed:
  "committedTransform (pinch_onChange env e s) = committedTransform s"
  by (simp add: pinch_onChange_def Let_def split_def split: option.splits)

lemma pinch_onChange_pinchScale:
  "imageDimensions env = Some dims \<Longrightarrow>
   pinchScale (pinch_onChange env e s) =
     min (max (minPinchScale (scale (committedTransform s))) e)
         (maxPinchScale (SCREEN env) dims (scale (committedTransform s)))"
  by (simp add: pinch_onChange_def Let_def split_def readTransform_def)

lemma pinch_onEnd_scale:
  "scale (committedTransform (pinch_onEnd env s)) =
     snapScale env (pinchScale s * scale (committedTransform s))"
  by (simp add: pinch_onEnd_def Let_def applyRounding_def prependTransform_def
      prependPinch_def createTransform_def)

lemma pinch_onEnd_pinchScale: "pinchScale (pinch_onEnd env s) = 1"
  by (simp add: pinch_onEnd_def Let_def)

lemma initialState_scale: "scale (committedTransform initialState) = 1"
  by (simp add: initialState_def initialTransform_def createTransform_def)

lemma pinchInv_initial:
  assumes "goodSnap (snapScale env)" and "1 \<le> maxCommittedScale (SCREEN env) dims"
  shows "pinchInv env dims initialState"
proof -
  have "snapScale env 1 \<le> snapScale env (maxCommittedScale (SCREEN env) dims)"
    using assms by (rule goodSnap_mono)
  then show ?thesis
    by (simp add: pinchInv_def initialState_def initialTransform_def createTransform_def
        goodSnap_one [OF assms(1)])
qed

lemma pinchInv_dispatch:
  assumes dims: "imageDimensions env = Some dims"
    and M: "1 \<le> maxCommittedScale (SCREEN env) dims"
    and snap: "goodSnap (snapScale env)"
    and ev: "isPinchEvent ev"
    and inv: "pinchInv env dims s"
  shows "pinchInv env dims (dispatch env ev s)"
proof (cases ev)
  case (PinchStart fx fy)
  then show ?thesis using inv by (simp add: pinchInv_def pinch_onStart_def)
next
  case (PinchChange e)
  have c: "0 < scale (committedTransform s)" using inv by (simp add: pinchInv_def)
  show ?thesis
    using inv clamped_scale_bounds [OF c M, of e] PinchChange
    by (simp add: pinchInv_def pinch_onChange_committed pinch_onChange_pinchScale [OF dims]
        minPinchScale_def maxPinchScale_def)
next
  case PinchEnd
  let ?c = "scale (committedTransform s)"
  let ?M = "maxCommittedScale (SCREEN env) dims"
  note mono = goodSnap_mono [OF snap] and one = goodSnap_one [OF snap]
    and idem = goodSnap_idem [OF snap]
  show ?thesis
  proof (cases "pinchScale s = 1")
    case True
    then show ?thesis using inv PinchEnd
      by (simp add: pinchInv_def pinch_onEnd_scale pinch_onEnd_pinchScale)
  next
    case False
    then have b: "1 \<le> pinchScale s * ?c" "pinchScale s * ?c \<le> ?M"
      using inv by (simp_all add: pinchInv_def)
    have "snapScale env 1 \<le> snapScale env (pinchScale s * ?c)" using b(1) by (rule mono)
    moreover have "snapScale env (pinchScale s * ?c) \<le> snapScale env ?M"
      using b(2) by (rule mono)
    ultimately show ?thesis using PinchEnd one idem
      by (simp add: pinchInv_def pinch_onEnd_scale pinch_onEnd_pinchScale)
  qed
qed (use ev in simp_all)

lemma pinchInv_run:
  assumes "imageDimensions env = Some dims"
    and "1 \<le> maxCommittedScale (SCREEN env) dims"
    and "goodSnap (snapScale env)"
  shows "list_all isPinchEvent evs \<Longrightarrow> pinchInv env dims s \<Longrightarrow>
         pinchInv env dims (run env evs s)"
  by (induction evs arbitrary: s) (simp_all add: pinchInv_dispatch [OF assms])

lemma pinchInv_reachable:
  assumes "imageDimensions env = Some dims"
    and "1 \<le> maxCommittedScale (SCREEN env) dims"
    and "goodSnap (snapScale env)"
    and "list_all isPinchEvent evs"
  shows "pinchInv env dims (run env evs initialState)"
  using pinchInv_run [OF assms(1-3) assms(4) pinchInv_initial [OF assms(3) assms(2)]] .

subsection \<open>The notifications\<close>

lemma zoomValues_append: "zoomValues (xs @ ys) = zoomValues xs @ zoomValues ys"
  by (induction xs rule: zoomValues.induct) simp_all

lemma nextIsScaled_iff:
  "nextIsScaled s \<longleftrightarrow> pinchScale s \<noteq> 1 \<or> scale (committedTransform s) \<noteq> 1"
  by (simp add: nextIsScaled_def readTransform_def)

lemma animatedReaction_prev: "prevIsScaled (animatedReaction s) = Some (nextIsScaled s)"
  by (simp add: animatedReaction_def Let_def)

lemma animatedReaction_notifications:
  "notifications (animatedReaction s) =
     (if prevIsScaled s = Some (nextIsScaled s) then notifications s
      else notifications s @ [OnZoom (nextIsScaled s)])"
  by (simp add: animatedReaction_def handleZoom_def Let_def)

lemma handler_frame:
  assumes "ev \<noteq> AnimatedReaction"
  shows "prevIsScaled (dispatch env ev s) = prevIsScaled s"
    and "zoomValues (notifications (dispatch env ev s)) = zoomValues (notifications s)"
  using assms
  by (cases ev;
      simp add: pinch_onStart_def pinch_onChange_def pinch_onEnd_def pan_onChange_def
        pan_onEnd_def singleTap_onEnd_def doubleTap_onEnd_def Let_def split_def
        zoomValues_append
      split: option.splits)+

lemma zoomInv_dispatch: "zoomInv s \<Longrightarrow> zoomInv (dispatch env ev s)"
proof (cases "ev = AnimatedReaction")
  case False
  assume "zoomInv s"
  then show ?thesis by (simp add: zoomInv_def handler_frame [OF False])
next
  case True
  assume "zoomInv s"
  then show ?thesis using True
    by (auto simp add: zoomInv_def animatedReaction_prev animatedReaction_notifications
        zoomValues_append distinct_adj_append_iff)
qed

lemma zoomInv_run: "zoomInv s \<Longrightarrow> zoomInv (run env evs s)"
  by (induction evs arbitrary: s) (simp_all add: zoomInv_dispatch)

subsection \<open>The concrete environments\<close>

lemma SCREEN_largeImageEnv: "SCREEN largeImageEnv = \<lparr>width = 400, height = 800\<rparr>"
  by (simp add: SCREEN_def largeImageEnv_def statusBarHeight_def)

lemma SCREEN_smallImageEnv: "SCREEN smallImageEnv = \<lparr>width = 400, height = 800\<rparr>"
  by (simp add: SCREEN_def smallImageEnv_def statusBarHeight_def)


lemma SCREEN_squareScreenEnv: "SCREEN squareScreenEnv = \<lparr>width = 1000, height = 1000\<rparr>"
  by (simp add: SCREEN_def squareScreenEnv_def statusBarHeight_def)

lemma SCREEN_oddImageEnv: "SCREEN oddImageEnv = \<lparr>width = 300, height = 600\<rparr>"
  by (simp add: SCREEN_def oddImageEnv_def statusBarHeight_def)

text \<open>
  With rounding to the nearest two-hundredth as the snapping, the committed scale can
  end above the maximum, by less than a grid step: the maximum \<open>1001 / 150\<close> is
  snapped up to \<open>267 / 40\<close>.
\<close>

lemma snapped_scale_above_max:
  "maxCommittedScale (SCREEN oddImageEnv) \<lparr>width = 1001, height = 1001\<rparr> = 1001 / 150 \<and>
   scale (committedTransform
     (run oddImageEnv [PinchStart 150 300, PinchChange 10, PinchEnd] initialState)) = 267 / 40"
proof -
  have d: "imageDimensions oddImageEnv = Some \<lparr>width = 1001, height = 1001\<rparr>"
    by (simp add: oddImageEnv_def)
  have s: "snapScale oddImageEnv = snapToGrid 200" by (simp add: oddImageEnv_def)
  show ?thesis
    by (simp add: pinch_onEnd_scale pinch_onChange_committed pinch_onChange_pinchScale [OF d]
        pinch_onStart_committed initialState_scale s SCREEN_oddImageEnv minPinchScale_def
        maxPinchScale_def maxCommittedScale_def MAX_ORIGINAL_IMAGE_ZOOM_def snapToGrid_def
        round_def)
qed

subsection \<open>Where the pinch keeps the scale in range\<close>

text \<open>
  For an image whose maximum scale is at least 1 (a native width of at least half the
  screen's width) and a scale snapping that is monotone, idempotent and leaves 1 in
  place, every sequence of pinch events from the initial state leaves a committed
  scale of at least 1 and at most the snapped maximum. The images outside this lemma
  are those of C1 and C2 below.
\<close>

lemma pinch_scale_in_range:
  assumes "imageDimensions env = Some dims"
    and "1 \<le> maxCommittedScale (SCREEN env) dims"
    and "goodSnap (snapScale env)"
    and "list_all isPinchEvent evs"
  shows "1 \<le> scale (committedTransform (run env evs initialState)) \<and>
         scale (committedTransform (run env evs initialState))
           \<le> snapScale env (maxCommittedScale (SCREEN env) dims)"
  using pinchInv_reachable [OF assms] by (simp add: pinchInv_def)

lemma pinch_scale_in_range_example:
  "1 \<le> scale (committedTransform
           (run largeImageEnv [PinchStart 100 300, PinchChange 7, PinchEnd] initialState)) \<and>
   scale (committedTransform
           (run largeImageEnv [PinchStart 100 300, PinchChange 7, PinchEnd] initialState)) \<le> 5"
proof -
  have d: "imageDimensions largeImageEnv = Some \<lparr>width = 1000, height = 500\<rparr>"
    by (simp add: largeImageEnv_def)
  have m: "maxCommittedScale (SCREEN largeImageEnv) \<lparr>width = 1000, height = 500\<rparr> = 5"
    by (simp add: maxCommittedScale_def SCREEN_largeImageEnv MAX_ORIGINAL_IMAGE_ZOOM_def)
  have g: "goodSnap (snapScale largeImageEnv)"
    by (simp add: largeImageEnv_def goodSnap_snapToGrid_200)
  have s5: "snapScale largeImageEnv 5 = 5" by (simp add: largeImageEnv_def snapToGrid_def)
  have e: "list_all isPinchEvent [PinchStart 100 300, PinchChange 7, PinchEnd]" by simp
  show ?thesis
    using pinch_scale_in_range [OF d _ g e] by (simp add: m s5)
qed

subsection \<open>The double tap with the image known\<close>

text \<open>
  With the image's dimensions and aspect both known, a double tap in a state whose
  committed scale is not 1 sets the committed transform to the identity; with either
  unknown, the handler returns the state it was given.
\<close>

lemma doubleTap_onEnd_zoomed_cases:
  "(imageDimensions env \<noteq> None \<and> \<not> notAspect (imageAspect env) \<and>
      scale (committedTransform s) \<noteq> 1 \<longrightarrow>
      committedTransform (doubleTap_onEnd env absoluteX absoluteY s) = createTransform) \<and>
   (imageDimensions env = None \<or> notAspect (imageAspect env) \<longrightarrow>
      doubleTap_onEnd env absoluteX absoluteY s = s)"
  by (simp add: doubleTap_onEnd_def readTransform_def withClampedSpring_def Let_def)

section \<open>The claims\<close>

subsection \<open>C1: the committed scale after pinching\<close>

text \<open>
  Claim C1: after pinch gestures from a committed scale of 1, the committed scale is at
  least 1 and at most \<open>(imageDimensions.width / SCREEN.width) * MAX_ORIGINAL_IMAGE_ZOOM\<close>.
  The handler says as much ("don't let the user zoom out further than 1:1") and takes
  \<^verbatim>\<open>Math.max(minPinchScale, e.scale)\<close> for it, but the \<^verbatim>\<open>Math.min\<close> with
  \<^verbatim>\<open>maxPinchScale\<close> that follows is not guarded. For an image 100 wide on a screen 400
  wide the maximum is \<open>1 / 2\<close>, and a pinch that zooms in by 3 commits the scale
  \<open>1 / 2\<close>: the image ends below its size at rest.
\<close>

theorem pinch_commits_below_one:
  "maxCommittedScale (SCREEN smallImageEnv) \<lparr>width = 100, height = 50\<rparr> = 1 / 2 \<and>
   scale (committedTransform
     (run smallImageEnv [PinchStart 200 400, PinchChange 3, PinchEnd] initialState)) = 1 / 2 \<and>
   \<not> 1 \<le> scale (committedTransform
     (run smallImageEnv [PinchStart 200 400, PinchChange 3, PinchEnd] initialState))"
proof -
  have d: "imageDimensions smallImageEnv = Some \<lparr>width = 100, height = 50\<rparr>"
    by (simp add: smallImageEnv_def)
  have s: "snapScale smallImageEnv = snapToGrid 200" by (simp add: smallImageEnv_def)
  have m: "maxCommittedScale (SCREEN smallImageEnv) \<lparr>width = 100, height = 50\<rparr> = 1 / 2"
    by (simp add: maxCommittedScale_def SCREEN_smallImageEnv MAX_ORIGINAL_IMAGE_ZOOM_def)
  have "scale (committedTransform
     (run smallImageEnv [PinchStart 200 400, PinchChange 3, PinchEnd] initialState)) = 1 / 2"
    by (simp add: pinch_onEnd_scale pinch_onChange_committed pinch_onChange_pinchScale [OF d]
        pinch_onStart_committed initialState_scale s SCREEN_smallImageEnv minPinchScale_def
        maxPinchScale_def maxCommittedScale_def MAX_ORIGINAL_IMAGE_ZOOM_def snapToGrid_def)
  then show ?thesis using m by simp
qed

subsection \<open>C2: the bounds of the pinch clamp\<close>

text \<open>
  Claim C2: the bounds of the pinch clamp are never inverted, also for an image
  narrower than the screen. The handler computes both bounds and clamps without
  comparing them. For an image 100 wide on a screen 400 wide, at the initial state,
  \<open>minPinchScale\<close> is 1 and \<open>maxPinchScale\<close> is \<open>1 / 2\<close>: the bounds are
  inverted, and the change handler sets the pinch scale to the upper bound \<open>1 / 2\<close>
  for a pinch that zooms in by 3.
\<close>

theorem pinch_bounds_inverted:
  "imageDimensions smallImageEnv = Some \<lparr>width = 100, height = 50\<rparr> \<and>
   minPinchScale (scale (committedTransform initialState)) = 1 \<and>
   maxPinchScale (SCREEN smallImageEnv) \<lparr>width = 100, height = 50\<rparr>
     (scale (committedTransform initialState)) = 1 / 2 \<and>
   \<not> minPinchScale (scale (committedTransform initialState))
       \<le> maxPinchScale (SCREEN smallImageEnv) \<lparr>width = 100, height = 50\<rparr>
            (scale (committedTransform initialState)) \<and>
   pinchScale (run smallImageEnv [PinchChange 3] initialState) = 1 / 2"
proof -
  have d: "imageDimensions smallImageEnv = Some \<lparr>width = 100, height = 50\<rparr>"
    by (simp add: smallImageEnv_def)
  have b: "minPinchScale (scale (committedTransform initialState)) = 1"
    "maxPinchScale (SCREEN smallImageEnv) \<lparr>width = 100, height = 50\<rparr>
       (scale (committedTransform initialState)) = 1 / 2"
    by (simp_all add: initialState_scale SCREEN_smallImageEnv minPinchScale_def
        maxPinchScale_def maxCommittedScale_def MAX_ORIGINAL_IMAGE_ZOOM_def)
  have "pinchScale (run smallImageEnv [PinchChange 3] initialState) = 1 / 2"
    by (simp add: pinch_onChange_pinchScale [OF d] b)
  then show ?thesis using d b by simp
qed

subsection \<open>C3: clampTranslation\<close>

text \<open>
  Claim C3. With \<open>panDistance = max 0 ((scaledSize - screenSize) / 2)\<close>,
  \<^verbatim>\<open>clampTranslation\<close> returns its value unchanged when the value's absolute value is
  at most \<open>panDistance\<close>, returns \<open>panDistance\<close> for a larger value and
  \<open>- panDistance\<close> for a smaller one; for sizes 2000 and 1000 it maps 800 to 500,
  -800 to -500 and 100 to 100.
\<close>

theorem clampTranslation_spec:
  "(\<bar>v\<bar> \<le> max 0 ((scaledSize - screenSize) / 2) \<longrightarrow>
      clampTranslation v scaledSize screenSize = v) \<and>
   (max 0 ((scaledSize - screenSize) / 2) < v \<longrightarrow>
      clampTranslation v scaledSize screenSize = max 0 ((scaledSize - screenSize) / 2)) \<and>
   (v < - max 0 ((scaledSize - screenSize) / 2) \<longrightarrow>
      clampTranslation v scaledSize screenSize = - max 0 ((scaledSize - screenSize) / 2)) \<and>
   clampTranslation 800 2000 1000 = 500 \<and>
   clampTranslation (- 800) 2000 1000 = - 500 \<and>
   clampTranslation 100 2000 1000 = 100"
proof -
  have "clampTranslation 800 2000 1000 = 500" "clampTranslation (- 800) 2000 1000 = - 500"
    "clampTranslation 100 2000 1000 = 100"
    by (simp_all add: clampTranslation_alt)
  then show ?thesis
    unfolding clampTranslation_alt using clamp_inside clamp_above clamp_below by blast
qed

theorem clampTranslation_spec_witness:
  "\<bar>300::real\<bar> \<le> max 0 ((2000 - 1000) / 2) \<and> clampTranslation 300 2000 1000 = 300 \<and>
   max 0 ((2000 - 1000) / 2) < (501::real) \<and> clampTranslation 501 2000 1000 = 500 \<and>
   (- 501::real) < - max 0 ((2000 - 1000) / 2) \<and> clampTranslation (- 501) 2000 1000 = - 500"
  using clampTranslation_spec [of 300 2000 1000] clampTranslation_spec [of 501 2000 1000]
    clampTranslation_spec [of "- 501" 2000 1000]
  by simp

subsection \<open>C4: getExtraTranslationToStayInBounds\<close>

text \<open>
  Claim C4. When the image aspect is known (a number other than 0, which is what the
  handler's test \<^verbatim>\<open>!imageAspect\<close> lets through),
  \<^verbatim>\<open>getExtraTranslationToStayInBounds\<close> returns, on each axis, the clamped translation
  minus the candidate's translation, the clamp taken against the image's dimensions
  scaled at the candidate's scale; the candidate's translation plus this delta lies
  within \<open>panDistance\<close> of 0 on each axis.
\<close>

theorem getExtraTranslationToStayInBounds_spec:
  assumes "imageAspect env = Some a" and "a \<noteq> 0"
  shows "getExtraTranslationToStayInBounds env t =
     (clampTranslation (translateX t)
        (width (getScaledDimensions (SCREEN env) a (scale t))) (width (SCREEN env))
        - translateX t,
      clampTranslation (translateY t)
        (height (getScaledDimensions (SCREEN env) a (scale t))) (height (SCREEN env))
        - translateY t) \<and>
    \<bar>translateX t + fst (getExtraTranslationToStayInBounds env t)\<bar>
      \<le> max 0 ((width (getScaledDimensions (SCREEN env) a (scale t))
                   - width (SCREEN env)) / 2) \<and>
    \<bar>translateY t + snd (getExtraTranslationToStayInBounds env t)\<bar>
      \<le> max 0 ((height (getScaledDimensions (SCREEN env) a (scale t))
                   - height (SCREEN env)) / 2)"
  using clampTranslation_bounded
  by (simp add: getExtraTranslation_known [OF assms])

theorem getExtraTranslationToStayInBounds_spec_witness:
  "getExtraTranslationToStayInBounds largeImageEnv
     \<lparr>translateX = 500, translateY = - 30, scale = 2\<rparr> = (- 300, 30)"
  using getExtraTranslationToStayInBounds_spec
    [of largeImageEnv 2 "\<lparr>translateX = 500, translateY = - 30, scale = 2\<rparr>"]
  by (simp add: largeImageEnv_def SCREEN_def statusBarHeight_def getScaledDimensions_def
      clampTranslation_alt)

subsection \<open>C5: double tap on a zoomed image\<close>


subsection \<open>C6: double tap on an image at rest\<close>

text \<open>
  Claim C6. At rest (committed scale 1), with the image's dimensions and aspect known
  and a screen of positive size, a double tap commits the scale
  \<open>min (max (imageAspect / screenAspect) (screenAspect / imageAspect) MIN_DOUBLE_TAP_SCALE)
  ((imageDimensions.width / SCREEN.width) * MAX_ORIGINAL_IMAGE_ZOOM)\<close>; for an image
  aspect of 2 and a screen aspect of 1 the candidate scale is 2, so the committed scale
  is the smaller of 2 and the resolution bound.
\<close>

theorem doubleTap_at_rest:
  assumes "imageDimensions env = Some dims" and "imageAspect env = Some a" and "a \<noteq> 0"
    and "0 < width (SCREEN env)" and "0 < height (SCREEN env)"
    and "scale (committedTransform s) = 1"
  shows "scale (committedTransform (doubleTap_onEnd env absoluteX absoluteY s)) =
      min (max (max (a / (width (SCREEN env) / height (SCREEN env)))
                    ((width (SCREEN env) / height (SCREEN env)) / a))
               MIN_DOUBLE_TAP_SCALE)
          ((width dims / width (SCREEN env)) * MAX_ORIGINAL_IMAGE_ZOOM) \<and>
    (a = 2 \<and> width (SCREEN env) / height (SCREEN env) = 1 \<longrightarrow>
       candidateScale (SCREEN env) a = 2 \<and>
       scale (committedTransform (doubleTap_onEnd env absoluteX absoluteY s)) =
         min 2 ((width dims / width (SCREEN env)) * MAX_ORIGINAL_IMAGE_ZOOM))"
proof -
  have sc: "scale (committedTransform (doubleTap_onEnd env absoluteX absoluteY s)) =
      min (candidateScale (SCREEN env) a)
        ((width dims / width (SCREEN env)) * MAX_ORIGINAL_IMAGE_ZOOM)"
    using assms
    by (simp add: doubleTap_onEnd_def notAspect_def readTransform_def Let_def split_def
        withClampedSpring_def prependPinch_def createTransform_def)
  have c2: "a = 2 \<and> width (SCREEN env) / height (SCREEN env) = 1 \<longrightarrow>
       candidateScale (SCREEN env) a = 2"
    by (simp add: candidateScale_def Let_def MIN_DOUBLE_TAP_SCALE_def)
  show ?thesis using sc c2 by (auto simp add: candidateScale_def Let_def)
qed

theorem doubleTap_at_rest_witness:
  "scale (committedTransform (doubleTap_onEnd largeImageEnv 200 400 initialState)) = 4 \<and>
   candidateScale (SCREEN squareScreenEnv) 2 = 2 \<and>
   scale (committedTransform (doubleTap_onEnd squareScreenEnv 700 100 initialState)) = 2"
  using doubleTap_at_rest [of largeImageEnv "\<lparr>width = 1000, height = 500\<rparr>" 2 initialState
      200 400]
    doubleTap_at_rest [of squareScreenEnv "\<lparr>width = 2000, height = 1000\<rparr>" 2 initialState
      700 100]
  by (simp add: initialState_scale SCREEN_largeImageEnv SCREEN_squareScreenEnv
      MIN_DOUBLE_TAP_SCALE_def MAX_ORIGINAL_IMAGE_ZOOM_def)
    (simp add: largeImageEnv_def squareScreenEnv_def)

subsection \<open>C7: handlers while the image loads\<close>

text \<open>
  Claim C7. While the image's dimensions are unknown, the change handlers of the pinch
  and of the pan return the state they were given: the committed transform, the pan
  translation, the pinch scale, the pinch origin, the pinch translation and the log of
  notifications are all as before. The handlers are total functions; there is no error
  to raise.
\<close>

theorem onChange_without_dimensions:
  assumes "imageDimensions env = None"
  shows "pinch_onChange env e_scale s = s \<and> pan_onChange env translationX translationY s = s"
  using assms by (simp add: pinch_onChange_def pan_onChange_def)

theorem onChange_without_dimensions_witness:
  "imageDimensions loadingEnv = None \<and>
   pinch_onChange loadingEnv 3 zoomedState = zoomedState \<and>
   pan_onChange loadingEnv 40 (- 25) zoomedState = zoomedState"
  using onChange_without_dimensions [of loadingEnv 3 zoomedState 40 "- 25"]
  by (simp add: loadingEnv_def)

subsection \<open>C8: single tap\<close>

text \<open>
  Claim C8. A completed single tap appends exactly one \<^verbatim>\<open>onTap\<close> call to the calls
  made to the host, whatever the committed scale; when the committed scale is not 1 it
  also sets the committed transform to the identity, and when it is 1 the committed
  transform stays.
\<close>

theorem singleTap_onEnd_spec:
  "notifications (singleTap_onEnd s) = notifications s @ [OnTap] \<and>
   count_list (notifications (singleTap_onEnd s)) OnTap =
     count_list (notifications s) OnTap + 1 \<and>
   (scale (committedTransform s) \<noteq> 1 \<longrightarrow>
      committedTransform (singleTap_onEnd s) = createTransform) \<and>
   (scale (committedTransform s) = 1 \<longrightarrow>
      committedTransform (singleTap_onEnd s) = committedTransform s)"
  by (simp add: singleTap_onEnd_def readTransform_def withClampedSpring_def Let_def)

theorem singleTap_onEnd_spec_witness:
  "notifications (singleTap_onEnd zoomedState) = [OnTap] \<and>
   committedTransform (singleTap_onEnd zoomedState) = createTransform \<and>
   notifications (singleTap_onEnd initialState) = [OnTap] \<and>
   committedTransform (singleTap_onEnd initialState) = createTransform"
  using singleTap_onEnd_spec [of zoomedState] singleTap_onEnd_spec [of initialState]
  by (simp add: zoomedState_def initialState_def initialTransform_def createTransform_def)

subsection \<open>C9: the zoom notification\<close>

text \<open>
  Claim C9, as amended. The signal of the reaction is true exactly when the pinch scale
  is not 1 or the committed scale is not 1. The first evaluation, whose previous result
  is \<^verbatim>\<open>null\<close>, calls \<^verbatim>\<open>onZoom\<close> with the signal. An evaluation that follows another
  one calls \<^verbatim>\<open>onZoom\<close> exactly when the signal differs from the previous result, and
  passes the new signal. No gesture handler calls \<^verbatim>\<open>onZoom\<close>. Over every sequence of
  events and evaluations from the initial state, no two consecutive \<^verbatim>\<open>onZoom\<close> calls
  carry the same value.
\<close>

theorem zoom_notifications_spec:
  "(nextIsScaled s \<longleftrightarrow> pinchScale s \<noteq> 1 \<or> scale (committedTransform s) \<noteq> 1) \<and>
   (prevIsScaled s = Some b \<longrightarrow>
      notifications (animatedReaction s) =
        (if nextIsScaled s \<noteq> b then notifications s @ [OnZoom (nextIsScaled s)]
         else notifications s)) \<and>
   (prevIsScaled s = None \<longrightarrow>
      notifications (animatedReaction s) = notifications s @ [OnZoom (nextIsScaled s)]) \<and>
   (ev \<noteq> AnimatedReaction \<longrightarrow>
      zoomValues (notifications (dispatch env ev s)) = zoomValues (notifications s)) \<and>
   distinct_adj (zoomValues (notifications (run env evs initialState)))"
proof -
  have "zoomInv initialState" by (simp add: zoomInv_def initialState_def)
  then have "zoomInv (run env evs initialState)" by (rule zoomInv_run)
  then have "distinct_adj (zoomValues (notifications (run env evs initialState)))"
    by (simp add: zoomInv_def)
  then show ?thesis
    using nextIsScaled_iff [of s] handler_frame(2) [of ev env s]
    by (auto simp add: animatedReaction_notifications)
qed

theorem zoom_notifications_spec_witness:
  "nextIsScaled zoomedState \<and>
   notifications (animatedReaction zoomedState) = [OnZoom True] \<and>
   notifications (animatedReaction (zoomedState\<lparr>prevIsScaled := Some False\<rparr>)) = [OnZoom True] \<and>
   notifications (animatedReaction (zoomedState\<lparr>prevIsScaled := Some True\<rparr>)) = [] \<and>
   zoomValues (notifications (dispatch largeImageEnv SingleTapEnd zoomedState)) = [] \<and>
   distinct_adj (zoomValues (notifications (run largeImageEnv
      [AnimatedReaction, PinchStart 200 400, PinchChange 2, AnimatedReaction, AnimatedReaction,
       PinchEnd, AnimatedReaction, SingleTapEnd, AnimatedReaction] initialState)))"
  using zoom_notifications_spec [of "zoomedState\<lparr>prevIsScaled := Some False\<rparr>" False
      SingleTapEnd largeImageEnv
      "[AnimatedReaction, PinchStart 200 400, PinchChange 2, AnimatedReaction, AnimatedReaction,
        PinchEnd, AnimatedReaction, SingleTapEnd, AnimatedReaction]"]
    zoom_notifications_spec [of "zoomedState\<lparr>prevIsScaled := Some True\<rparr>" True
      SingleTapEnd largeImageEnv "[]"]
    zoom_notifications_spec [of zoomedState False SingleTapEnd largeImageEnv "[]"]
  by (simp add: zoomedState_def initialState_def)

text \<open>
  The claim as stated, that \<^verbatim>\<open>onZoom\<close> is raised only when the signal changes
  between consecutive evaluations, fails at the first evaluation: from the initial
  state, at rest and with no evaluation before, the reaction calls \<^verbatim>\<open>onZoom\<close> with
  \<open>False\<close>, the value \<^verbatim>\<open>isScaled\<close> already has.
\<close>

theorem zoom_notifications_counterexample:
  "prevIsScaled initialState = None \<and>
   isScaled initialState = False \<and>
   nextIsScaled initialState = False \<and>
   notifications (run largeImageEnv [AnimatedReaction] initialState) = [OnZoom False]"
  by (simp add: initialState_def initialTransform_def createTransform_def nextIsScaled_def
      readTransform_def animatedReaction_def handleZoom_def Let_def)

subsection \<open>C10: getScaledDimensions\<close>

text \<open>
  Claim C10. On a screen of positive size, for a positive image aspect and every
  scale, the dimensions returned by \<^verbatim>\<open>getScaledDimensions\<close> have the image's aspect:
  the width is the aspect times the height, and their quotient is the aspect whenever
  the height is not 0. An image wider than the screen (image aspect above the screen's)
  gets the width \<open>scale * SCREEN.width\<close>, any other image the height
  \<open>scale * SCREEN.height\<close>, and with a scale that is not negative neither dimension
  exceeds the screen's times the scale: the image is fitted inside the scaled screen.
\<close>

theorem getScaledDimensions_spec:
  assumes "0 < a" and "0 < width scr" and "0 < height scr"
  shows "width (getScaledDimensions scr a s) = a * height (getScaledDimensions scr a s) \<and>
    (height (getScaledDimensions scr a s) \<noteq> 0 \<longrightarrow>
         width (getScaledDimensions scr a s) / height (getScaledDimensions scr a s) = a) \<and>
    (a > width scr / height scr \<longrightarrow> width (getScaledDimensions scr a s) = s * width scr) \<and>
    (\<not> a > width scr / height scr \<longrightarrow> height (getScaledDimensions scr a s) = s * height scr) \<and>
    (0 \<le> s \<longrightarrow>
         width (getScaledDimensions scr a s) \<le> s * width scr \<and>
         height (getScaledDimensions scr a s) \<le> s * height scr)"
proof -
  have r: "width (getScaledDimensions scr a s) = a * height (getScaledDimensions scr a s)"
    using assms(1) by (simp add: getScaledDimensions_ratio)
  have q: "height (getScaledDimensions scr a s) \<noteq> 0 \<longrightarrow>
         width (getScaledDimensions scr a s) / height (getScaledDimensions scr a s) = a"
    using r by simp
  have l: "a > width scr / height scr \<longrightarrow>
         width (getScaledDimensions scr a s) = s * width scr"
    by (simp add: getScaledDimensions_landscape)
  have p: "\<not> a > width scr / height scr \<longrightarrow>
         height (getScaledDimensions scr a s) = s * height scr"
    by (simp add: getScaledDimensions_portrait)
  have c: "0 \<le> s \<longrightarrow>
         width (getScaledDimensions scr a s) \<le> s * width scr \<and>
         height (getScaledDimensions scr a s) \<le> s * height scr"
    using getScaledDimensions_contain [OF assms] by blast
  from r q l p c show ?thesis by blast
qed

theorem getScaledDimensions_spec_witness:
  "getScaledDimensions \<lparr>width = 400, height = 800\<rparr> 2 3 = \<lparr>width = 1200, height = 600\<rparr> \<and>
   width (getScaledDimensions \<lparr>width = 400, height = 800\<rparr> 2 3) /
     height (getScaledDimensions \<lparr>width = 400, height = 800\<rparr> 2 3) = 2 \<and>
   getScaledDimensions \<lparr>width = 400, height = 800\<rparr> (1 / 4) 3
     = \<lparr>width = 600, height = 2400\<rparr> \<and>
   width (getScaledDimensions \<lparr>width = 400, height = 800\<rparr> (1 / 4) 3) /
     height (getScaledDimensions \<lparr>width = 400, height = 800\<rparr> (1 / 4) 3) = 1 / 4"
  using getScaledDimensions_spec [of 2 "\<lparr>width = 400, height = 800\<rparr>" 3]
    getScaledDimensions_spec [of "1 / 4" "\<lparr>width = 400, height = 800\<rparr>" 3]
  by (simp add: getScaledDimensions_def)

end
